theory Spec2Isabelle
  imports
    Complex_Main
    "HOL-Library.AList"
    "HOL-Library.Char_ord"
    "HOL-Library.List_Lexorder"
begin

section \<open>BlackRoad state synchronization: data model\<close>

text \<open>
  The development follows \<^verbatim>\<open>src/state/sync.py\<close> (class \<^verbatim>\<open>StateManager\<close>) and the
  state hasher of \<^verbatim>\<open>src/hashing/sha.py\<close> (class \<^verbatim>\<open>StateHasher\<close>).

  The values a caller stores are the values that \<^verbatim>\<open>json.dumps\<close> serialises (section 3 of
  the specification): \<^verbatim>\<open>None\<close>, booleans, integers, floats, strings, lists, tuples and
  mappings with string keys. A tuple is serialised as a JSON array and is read back as a
  list, so it is kept apart from a list. A Python \<^verbatim>\<open>dict\<close> keeps insertion order, so a
  dictionary is an association list whose keys are distinct; \<open>AList.update\<close> is exactly
  Python's \<^verbatim>\<open>d[k] = v\<close> (replace in place, or append a new key at the end) and \<open>map_of\<close> is
  \<^verbatim>\<open>d.get(k)\<close>. Python floats are read as rationals: only their order and equality are
  used. Python's unbounded integers are \<open>int\<close>.
\<close>

datatype pyvalue =
    PNone
  | PBool bool
  | PInt int
  | PFloat rat
  | PStr string
  | PList "pyvalue list"
  | PTuple "pyvalue list"
  | PDict "(string \<times> pyvalue) list"

type_synonym pydict = "(string \<times> pyvalue) list"

datatype SyncSource = GITHUB | CLOUDFLARE | SALESFORCE | LOCAL

datatype ConflictResolution = LAST_WRITE_WINS | SOURCE_PRIORITY | MANUAL | MERGE

text \<open>The \<^verbatim>\<open>.value\<close> of the two enumerations.\<close>

fun source_value :: "SyncSource \<Rightarrow> string" where
  "source_value GITHUB = ''github''"
| "source_value CLOUDFLARE = ''cloudflare''"
| "source_value SALESFORCE = ''salesforce''"
| "source_value LOCAL = ''local''"

fun resolution_value :: "ConflictResolution \<Rightarrow> string" where
  "resolution_value LAST_WRITE_WINS = ''last_write_wins''"
| "resolution_value SOURCE_PRIORITY = ''source_priority''"
| "resolution_value MANUAL = ''manual''"
| "resolution_value MERGE = ''merge''"

text \<open>\<^verbatim>\<open>str(resolution)\<close> of a plain \<^verbatim>\<open>Enum\<close> member, as the f-string of the last branch
  of \<^verbatim>\<open>resolve_conflict\<close> prints it.\<close>

fun resolution_str :: "ConflictResolution \<Rightarrow> string" where
  "resolution_str LAST_WRITE_WINS = ''ConflictResolution.LAST_WRITE_WINS''"
| "resolution_str SOURCE_PRIORITY = ''ConflictResolution.SOURCE_PRIORITY''"
| "resolution_str MANUAL = ''ConflictResolution.MANUAL''"
| "resolution_str MERGE = ''ConflictResolution.MERGE''"

text \<open>\<^verbatim>\<open>SyncSource(s)\<close>: the member with that value, or \<^verbatim>\<open>ValueError\<close> (here \<open>None\<close>).\<close>

definition source_of_value :: "string \<Rightarrow> SyncSource option" where
  "source_of_value s =
     (if s = ''github'' then Some GITHUB
      else if s = ''cloudflare'' then Some CLOUDFLARE
      else if s = ''salesforce'' then Some SALESFORCE
      else if s = ''local'' then Some LOCAL
      else None)"

text \<open>
  The dataclass \<^verbatim>\<open>SyncState\<close>. The field \<^verbatim>\<open>value\<close> is called \<open>svalue\<close> here. The fields the
  manager computes with have the types of their annotations: \<^verbatim>\<open>value\<close> (a mapping),
  \<^verbatim>\<open>hash\<close> (a string, compared), \<^verbatim>\<open>timestamp\<close> (a float, compared), \<^verbatim>\<open>version\<close> (an integer,
  compared and incremented) and \<^verbatim>\<open>source\<close>. The manager never reads \<^verbatim>\<open>key\<close> and \<^verbatim>\<open>metadata\<close>
  of a record; they are kept as whatever value they were given.
\<close>

record SyncState =
  key :: pyvalue
  svalue :: pydict
  hash :: string
  source :: SyncSource
  timestamp :: rat
  version :: int
  metadata :: pyvalue

text \<open>The dataclass \<^verbatim>\<open>SyncConflict\<close>. Its field \<^verbatim>\<open>key\<close> is called \<open>ckey\<close> here.\<close>

record SyncConflict =
  ckey :: string
  local_state :: SyncState
  remote_state :: SyncState
  detected_at :: rat
  resolved :: bool
  resolution :: "string option"

text \<open>
  The mutable fields of a \<^verbatim>\<open>StateManager\<close>: \<^verbatim>\<open>_local_cache\<close>, \<^verbatim>\<open>_pending_syncs\<close> and
  \<^verbatim>\<open>_conflicts\<close>, with the two configuration fields set by the constructor.
\<close>

record StateManager =
  primary_source :: SyncSource
  conflict_resolution :: ConflictResolution
  local_cache :: "(string \<times> SyncState) list"
  pending_syncs :: "string list"
  conflicts :: "SyncConflict list"

text \<open>\<^verbatim>\<open>StateManager.__init__\<close>.\<close>

definition init_manager :: "SyncSource \<Rightarrow> ConflictResolution \<Rightarrow> StateManager" where
  "init_manager ps cr =
     \<lparr>primary_source = ps, conflict_resolution = cr,
      local_cache = [], pending_syncs = [], conflicts = []\<rparr>"

text \<open>The constructor with its default arguments.\<close>

definition new_manager :: StateManager where
  "new_manager = init_manager CLOUDFLARE LAST_WRITE_WINS"

text \<open>The exceptions the modelled code raises. \<open>ValueError\<close> carries the message;
  \<open>EnumValueError v\<close> is the \<^verbatim>\<open>ValueError\<close> of \<^verbatim>\<open>SyncSource(v)\<close> for a \<open>v\<close> that is no
  member value; \<open>KeyError\<close> and \<open>AttributeError\<close> carry the missing key or attribute.\<close>

datatype error =
    ValueError string
  | EnumValueError pyvalue
  | KeyError string
  | TypeError
  | AttributeError string

section \<open>The state hasher\<close>

text \<open>
  \<^verbatim>\<open>StateHasher._normalize_state\<close>: at every depth of a mapping, walk the items sorted by
  key, drop the volatile fields, and clean the values; clean the items of a list in place;
  leave every other value as it is (a tuple is no \<^verbatim>\<open>list\<close>: it is not entered).
\<close>

definition volatile_fields :: "string set" where
  "volatile_fields = {''updated_at'', ''last_modified'', ''etag'', ''_metadata''}"

fun clean :: "pyvalue \<Rightarrow> pyvalue" where
  "clean (PDict kvs) =
     PDict (map (\<lambda>(k, v). (k, clean v))
              (filter (\<lambda>(k, v). k \<notin> volatile_fields) (sort_key fst kvs)))"
| "clean (PList xs) = PList (map clean xs)"
| "clean obj = obj"

text \<open>
  \<^verbatim>\<open>StateHasher.hash_state\<close>. The digest of the canonical serialisation
  (\<^verbatim>\<open>hashlib\<close>'s SHA-256 of \<^verbatim>\<open>json.dumps(obj, sort_keys=True, separators=(',', ':'))\<close>,
  both from Python's standard library) is the parameter \<open>dg\<close>. On the values of
  \<open>pyvalue\<close> the hasher returns, integers being taken below the interpreter's limit for
  printing an integer (4300 digits by default, since Python 3.11). For any other value
  (an object \<^verbatim>\<open>json.dumps\<close> refuses, a mapping whose keys \<^verbatim>\<open>sorted\<close> cannot order, an integer
  over that limit) the code raises here, before \<^verbatim>\<open>put\<close> has changed anything; the model
  has no such values, and says nothing about a call that is given one.
\<close>

definition hash_state :: "(pyvalue \<Rightarrow> string) \<Rightarrow> pydict \<Rightarrow> string" where
  "hash_state dg state = dg (clean (PDict state))"

section \<open>Local cache: put and delete\<close>

text \<open>
  \<^verbatim>\<open>StateManager.put\<close>. The clock reading \<^verbatim>\<open>time.time()\<close> that the dataclass default takes
  is the argument \<open>now\<close>. An enumeration member is truthy, so \<^verbatim>\<open>source or SyncSource.LOCAL\<close>
  replaces only \<^verbatim>\<open>None\<close>. The method returns the new record and leaves the manager
  updated.
\<close>

definition put ::
  "(pyvalue \<Rightarrow> string) \<Rightarrow> rat \<Rightarrow> string \<Rightarrow> pydict \<Rightarrow> SyncSource option \<Rightarrow> StateManager
     \<Rightarrow> SyncState \<times> StateManager" where
  "put dg now k v src m =
     (let source' = (case src of None \<Rightarrow> LOCAL | Some s \<Rightarrow> s);
          value_hash = hash_state dg v;
          existing = map_of (local_cache m) k;
          version' = (case existing of Some e \<Rightarrow> version e + 1 | None \<Rightarrow> 1);
          state = \<lparr>key = PStr k, svalue = v, hash = value_hash, source = source',
                   timestamp = now, version = version',
                   metadata = PDict [(''updated_by'', PStr ''state_manager'')]\<rparr>
      in (state, m\<lparr>local_cache := AList.update k state (local_cache m),
                    pending_syncs := pending_syncs m @ [k]\<rparr>))"

text \<open>\<^verbatim>\<open>StateManager.delete\<close>; the tombstone is the string \<^verbatim>\<open>f"DELETE:{key}"\<close>.\<close>

definition delete :: "string \<Rightarrow> StateManager \<Rightarrow> bool \<times> StateManager" where
  "delete k m =
     (if map_of (local_cache m) k \<noteq> None
      then (True, m\<lparr>local_cache := AList.delete k (local_cache m),
                     pending_syncs := pending_syncs m @ [''DELETE:'' @ k]\<rparr>)
      else (False, m))"

section \<open>Backends\<close>

text \<open>
  \<^verbatim>\<open>_fetch_from_source\<close> and \<^verbatim>\<open>_push_to_source\<close> are the two methods through which the manager
  reaches a backend. The operations below take them as arguments, so that they can be
  studied against any backend; the two definitions here are the bodies the class ships
  (the \<^verbatim>\<open>print\<close> calls aside). A push that raises is \<open>Inl\<close> of the exception's text.
\<close>

type_synonym fetch_fn = "string \<Rightarrow> SyncSource \<Rightarrow> SyncState option"
type_synonym push_fn = "SyncState \<Rightarrow> SyncSource \<Rightarrow> string + bool"

definition fetch_from_source :: fetch_fn where
  "fetch_from_source k src = None"

definition push_to_source :: push_fn where
  "push_to_source state src = Inr True"

section \<open>Synchronization\<close>

record sync_results =
  synced :: "string list"
  failed :: "string list"
  result_conflicts :: "string list"

text \<open>\<^verbatim>\<open>list.remove(x)\<close>: drops the first occurrence, \<^verbatim>\<open>ValueError\<close> when there is none.\<close>

definition list_remove :: "string \<Rightarrow> string list \<Rightarrow> error + string list" where
  "list_remove x xs =
     (if x \<in> set xs then Inr (remove1 x xs)
      else Inl (ValueError ''list.remove(x): x not in list''))"

text \<open>The inner loop of \<^verbatim>\<open>sync_all\<close> over the sources, with its \<^verbatim>\<open>try\<close>/\<^verbatim>\<open>except\<close>.\<close>

fun push_sources ::
  "push_fn \<Rightarrow> string \<Rightarrow> SyncState \<Rightarrow> SyncSource list \<Rightarrow> sync_results \<Rightarrow> sync_results" where
  "push_sources push k state [] res = res"
| "push_sources push k state (src # srcs) res =
     push_sources push k state srcs
       (case push state src of
          Inr success \<Rightarrow>
            if success then res\<lparr>synced := synced res @ [k @ ''@'' @ source_value src]\<rparr>
            else res\<lparr>failed := failed res @ [k @ ''@'' @ source_value src]\<rparr>
        | Inl e \<Rightarrow> res\<lparr>failed := failed res @ [k @ ''@'' @ source_value src @ '': '' @ e]\<rparr>)"

text \<open>
  The outer loop of \<^verbatim>\<open>sync_all\<close>, over the copy \<^verbatim>\<open>self._pending_syncs[:]\<close>: a key with no
  cached record is skipped by \<^verbatim>\<open>continue\<close>; any other key is pushed to both sources and
  then removed from the queue.
\<close>

fun sync_keys ::
  "push_fn \<Rightarrow> string list \<Rightarrow> sync_results \<Rightarrow> StateManager
     \<Rightarrow> error + (sync_results \<times> StateManager)" where
  "sync_keys push [] res m = Inr (res, m)"
| "sync_keys push (k # ks) res m =
     (case map_of (local_cache m) k of
        None \<Rightarrow> sync_keys push ks res m
      | Some state \<Rightarrow>
          (case list_remove k (pending_syncs m) of
             Inl e \<Rightarrow> Inl e
           | Inr pending' \<Rightarrow>
               sync_keys push ks
                 (push_sources push k state [CLOUDFLARE, SALESFORCE] res)
                 (m\<lparr>pending_syncs := pending'\<rparr>)))"

definition sync_all :: "push_fn \<Rightarrow> StateManager \<Rightarrow> error + (sync_results \<times> StateManager)" where
  "sync_all push m =
     sync_keys push (pending_syncs m) \<lparr>synced = [], failed = [], result_conflicts = []\<rparr> m"

text \<open>The constructor call \<^verbatim>\<open>SyncConflict(key=..., local_state=..., remote_state=...)\<close> of
  \<^verbatim>\<open>sync_from_primary\<close> and \<^verbatim>\<open>detect_conflicts\<close>, with the dataclass defaults; \<open>now\<close> is the
  clock reading taken for \<^verbatim>\<open>detected_at\<close>.\<close>

definition new_conflict :: "string \<Rightarrow> SyncState \<Rightarrow> SyncState \<Rightarrow> rat \<Rightarrow> SyncConflict" where
  "new_conflict k l r now =
     \<lparr>ckey = k, local_state = l, remote_state = r,
      detected_at = now, resolved = False, resolution = None\<rparr>"

text \<open>
  The loop of \<^verbatim>\<open>sync_from_primary\<close>. A \<^verbatim>\<open>SyncState\<close> object is truthy, so \<^verbatim>\<open>if remote_state\<close>
  and \<^verbatim>\<open>if local_state and ...\<close> test for \<^verbatim>\<open>None\<close> only.
\<close>

fun pull_keys ::
  "fetch_fn \<Rightarrow> rat \<Rightarrow> string list \<Rightarrow> int \<Rightarrow> StateManager \<Rightarrow> int \<times> StateManager" where
  "pull_keys fetch now [] cnt m = (cnt, m)"
| "pull_keys fetch now (k # ks) cnt m =
     (case fetch k (primary_source m) of
        None \<Rightarrow> pull_keys fetch now ks cnt m
      | Some remote \<Rightarrow>
          (case map_of (local_cache m) k of
             Some local \<Rightarrow>
               if hash local \<noteq> hash remote
               then pull_keys fetch now ks cnt
                      (m\<lparr>conflicts := conflicts m @ [new_conflict k local remote now]\<rparr>)
               else pull_keys fetch now ks (cnt + 1)
                      (m\<lparr>local_cache := AList.update k remote (local_cache m)\<rparr>)
           | None \<Rightarrow>
               pull_keys fetch now ks (cnt + 1)
                 (m\<lparr>local_cache := AList.update k remote (local_cache m)\<rparr>)))"

text \<open>\<^verbatim>\<open>keys or list(self._local_cache.keys())\<close>: \<^verbatim>\<open>None\<close> and the empty list both select
  every cached key.\<close>

definition keys_to_sync :: "string list option \<Rightarrow> StateManager \<Rightarrow> string list" where
  "keys_to_sync keys m =
     (case keys of
        None \<Rightarrow> map fst (local_cache m)
      | Some ks \<Rightarrow> if ks = [] then map fst (local_cache m) else ks)"

definition sync_from_primary ::
  "fetch_fn \<Rightarrow> rat \<Rightarrow> string list option \<Rightarrow> StateManager \<Rightarrow> int \<times> StateManager" where
  "sync_from_primary fetch now keys m = pull_keys fetch now (keys_to_sync keys m) 0 m"

section \<open>Conflict detection and resolution\<close>

text \<open>The loop of \<^verbatim>\<open>detect_conflicts\<close> over \<^verbatim>\<open>self._local_cache.items()\<close>.\<close>

fun detect_items ::
  "fetch_fn \<Rightarrow> rat \<Rightarrow> SyncSource \<Rightarrow> (string \<times> SyncState) list \<Rightarrow> SyncConflict list" where
  "detect_items fetch now primary [] = []"
| "detect_items fetch now primary ((k, local) # items) =
     (case fetch k primary of
        None \<Rightarrow> detect_items fetch now primary items
      | Some remote \<Rightarrow>
          if hash local \<noteq> hash remote
          then (if version local \<ge> version remote
                then detect_items fetch now primary items
                else new_conflict k local remote now
                     # detect_items fetch now primary items)
          else detect_items fetch now primary items)"

definition detect_conflicts ::
  "fetch_fn \<Rightarrow> rat \<Rightarrow> StateManager \<Rightarrow> SyncConflict list \<times> StateManager" where
  "detect_conflicts fetch now m =
     (let found = detect_items fetch now (primary_source m) (local_cache m)
      in (found, m\<lparr>conflicts := conflicts m @ found\<rparr>))"

text \<open>
  \<^verbatim>\<open>resolve_conflict\<close>. \<^verbatim>\<open>not merged_value\<close> holds for \<^verbatim>\<open>None\<close> and for the empty dictionary.
  Both failures are a \<^verbatim>\<open>ValueError\<close>, told apart by their message. The method marks the
  conflict object it was given, so the result carries, next to the returned record or
  the exception, the conflict object and the manager as the call leaves them.
  \<open>resolve_conflict\<close> is the call on a conflict object that the manager's conflict log
  does not hold; \<open>resolve_logged\<close> below is the call on an entry of the log.
\<close>

definition finish_resolve ::
  "SyncConflict \<Rightarrow> ConflictResolution \<Rightarrow> SyncState \<Rightarrow> StateManager
     \<Rightarrow> (error + SyncState) \<times> SyncConflict \<times> StateManager" where
  "finish_resolve conflict res winner m =
     (Inr winner,
      conflict\<lparr>resolved := True, resolution := Some (resolution_value res)\<rparr>,
      m\<lparr>local_cache := AList.update (ckey conflict) winner (local_cache m),
        pending_syncs := pending_syncs m @ [ckey conflict]\<rparr>)"

definition resolve_conflict ::
  "(pyvalue \<Rightarrow> string) \<Rightarrow> rat \<Rightarrow> SyncConflict \<Rightarrow> ConflictResolution \<Rightarrow> pydict option
     \<Rightarrow> StateManager \<Rightarrow> (error + SyncState) \<times> SyncConflict \<times> StateManager" where
  "resolve_conflict dg now conflict res merged_value m =
     (if res = LAST_WRITE_WINS then
        (if timestamp (local_state conflict) > timestamp (remote_state conflict)
         then finish_resolve conflict res (local_state conflict) m
         else finish_resolve conflict res (remote_state conflict) m)
      else if res = SOURCE_PRIORITY then
        finish_resolve conflict res (remote_state conflict) m
      else if res = MERGE then
        (case merged_value of
           None \<Rightarrow>
             (Inl (ValueError ''merged_value required for MERGE resolution''), conflict, m)
         | Some mv \<Rightarrow>
             if mv = []
             then (Inl (ValueError ''merged_value required for MERGE resolution''), conflict, m)
             else (let (winner, m') = put dg now (ckey conflict) mv None m
                   in finish_resolve conflict res winner m'))
      else (Inl (ValueError (''Cannot auto-resolve with '' @ resolution_str res)),
            conflict, m))"

text \<open>
  \<^verbatim>\<open>resolve_conflict\<close> called on the object at position \<open>i\<close> of the conflict log (the objects
  \<^verbatim>\<open>detect_conflicts\<close> returns are the objects it appends). The method marks that object in
  place, and the log holds it: the entry of the log shows the marking. \<open>None\<close>: the log has
  no position \<open>i\<close>.
\<close>

definition resolve_logged ::
  "(pyvalue \<Rightarrow> string) \<Rightarrow> rat \<Rightarrow> nat \<Rightarrow> ConflictResolution \<Rightarrow> pydict option
     \<Rightarrow> StateManager \<Rightarrow> ((error + SyncState) \<times> SyncConflict \<times> StateManager) option" where
  "resolve_logged dg now i res merged_value m =
     (if i < length (conflicts m)
      then (case resolve_conflict dg now (conflicts m ! i) res merged_value m of
              (result, conflict', m') \<Rightarrow>
                Some (result, conflict', m'\<lparr>conflicts := (conflicts m')[i := conflict']\<rparr>))
      else None)"

section \<open>Persistence\<close>

text \<open>Sequencing of steps that may raise: the first exception ends the computation.\<close>

definition bind_result :: "error + 'a \<Rightarrow> ('a \<Rightarrow> error + 'b) \<Rightarrow> error + 'b" where
  "bind_result r f = (case r of Inl e \<Rightarrow> Inl e | Inr x \<Rightarrow> f x)"

text \<open>\<^verbatim>\<open>d[k]\<close> and \<^verbatim>\<open>d.get(k, default)\<close> on a dictionary.\<close>

definition subscript :: "pydict \<Rightarrow> string \<Rightarrow> error + pyvalue" where
  "subscript d k = (case map_of d k of None \<Rightarrow> Inl (KeyError k) | Some v \<Rightarrow> Inr v)"

definition get_default :: "pydict \<Rightarrow> string \<Rightarrow> pyvalue \<Rightarrow> pyvalue" where
  "get_default d k dflt = (case map_of d k of None \<Rightarrow> dflt | Some v \<Rightarrow> v)"

text \<open>\<^verbatim>\<open>SyncSource(v)\<close> on a JSON value.\<close>

definition sync_source :: "pyvalue \<Rightarrow> error + SyncSource" where
  "sync_source v =
     (case (case v of PStr s \<Rightarrow> source_of_value s | _ \<Rightarrow> None) of
        None \<Rightarrow> Inl (EnumValueError v)
      | Some src \<Rightarrow> Inr src)"

text \<open>
  Reading a JSON value of a snapshot at the type of a record field: \<open>None\<close> when the value
  has another type. \<^verbatim>\<open>SyncState.from_dict\<close> and \<^verbatim>\<open>load_local\<close> make no such check: they store
  the value as it is, in an object that the record types here cannot hold.
\<close>

definition as_str :: "pyvalue \<Rightarrow> string option" where
  "as_str v = (case v of PStr s \<Rightarrow> Some s | _ \<Rightarrow> None)"

definition as_dict :: "pyvalue \<Rightarrow> pydict option" where
  "as_dict v = (case v of PDict d \<Rightarrow> Some d | _ \<Rightarrow> None)"

definition as_int :: "pyvalue \<Rightarrow> int option" where
  "as_int v = (case v of PInt n \<Rightarrow> Some n | _ \<Rightarrow> None)"

definition as_float :: "pyvalue \<Rightarrow> rat option" where
  "as_float v = (case v of PFloat t \<Rightarrow> Some t | _ \<Rightarrow> None)"

fun str_list :: "pyvalue list \<Rightarrow> string list option" where
  "str_list [] = Some []"
| "str_list (PStr s # vs) = (case str_list vs of None \<Rightarrow> None | Some ss \<Rightarrow> Some (s # ss))"
| "str_list (_ # vs) = None"

definition as_str_list :: "pyvalue \<Rightarrow> string list option" where
  "as_str_list v = (case v of PList vs \<Rightarrow> str_list vs | _ \<Rightarrow> None)"


text \<open>
  The part of \<^verbatim>\<open>SyncState.from_dict\<close> that can raise. The keyword arguments are evaluated
  in order, so the first missing required key gives the \<^verbatim>\<open>KeyError\<close>, and
  \<^verbatim>\<open>SyncSource(...)\<close> is reached after \<^verbatim>\<open>key\<close>, \<^verbatim>\<open>value\<close> and \<^verbatim>\<open>hash\<close> were read.
\<close>

definition required_fields ::
  "pydict \<Rightarrow> error + (pyvalue \<times> pyvalue \<times> pyvalue \<times> SyncSource)" where
  "required_fields d =
     bind_result (subscript d ''key'') (\<lambda>jk.
     bind_result (subscript d ''value'') (\<lambda>jv.
     bind_result (subscript d ''hash'') (\<lambda>jh.
     bind_result (subscript d ''source'') (\<lambda>js.
     bind_result (sync_source js) (\<lambda>src.
     Inr (jk, jv, jh, src))))))"

text \<open>
  \<^verbatim>\<open>SyncState.from_dict\<close> on a JSON value. Subscripting a value that is no object is a
  \<^verbatim>\<open>TypeError\<close>. The record takes the \<^verbatim>\<open>"key"\<close>, \<^verbatim>\<open>"hash"\<close> and the other entries of the document
  as they stand; nothing is computed from \<^verbatim>\<open>"value"\<close>. The result is \<open>None\<close> when the call
  returns an object whose \<^verbatim>\<open>value\<close>, \<^verbatim>\<open>hash\<close>, \<^verbatim>\<open>timestamp\<close> or \<^verbatim>\<open>version\<close> is not of the annotated
  type: the code builds and returns that object, which is no value of \<open>SyncState\<close>, and the
  model makes no statement about it.
\<close>

definition from_dict :: "rat \<Rightarrow> pyvalue \<Rightarrow> (error + SyncState) option" where
  "from_dict now data =
     (case data of
        PDict d \<Rightarrow>
          (case required_fields d of
             Inl e \<Rightarrow> Some (Inl e)
           | Inr (jk, jv, jh, src) \<Rightarrow>
               (case (as_dict jv, as_str jh,
                      as_float (get_default d ''timestamp'' (PFloat now)),
                      as_int (get_default d ''version'' (PInt 1))) of
                  (Some v, Some h, Some t, Some n) \<Rightarrow>
                    Some (Inr \<lparr>key = jk, svalue = v, hash = h, source = src,
                               timestamp = t, version = n,
                               metadata = get_default d ''metadata'' (PDict [])\<rparr>)
                | _ \<Rightarrow> None))
      | _ \<Rightarrow> Some (Inl TypeError))"




text \<open>
  The loop of \<^verbatim>\<open>load_local\<close>; an exception leaves the records stored so far. \<open>None\<close> as for
  \<open>from_dict\<close>.
\<close>

fun load_states ::
  "rat \<Rightarrow> (string \<times> pyvalue) list \<Rightarrow> StateManager
     \<Rightarrow> (error option \<times> StateManager) option" where
  "load_states now [] m = Some (None, m)"
| "load_states now ((k, state_dict) # items) m =
     (case from_dict now state_dict of
        None \<Rightarrow> None
      | Some (Inl e) \<Rightarrow> Some (Some e, m)
      | Some (Inr s) \<Rightarrow>
          load_states now items (m\<lparr>local_cache := AList.update k s (local_cache m)\<rparr>))"

text \<open>
  \<^verbatim>\<open>load_local\<close> on the content of the snapshot file: \<open>None\<close> when the file does not exist
  (\<^verbatim>\<open>FileNotFoundError\<close>, answered by \<^verbatim>\<open>0\<close>), else the parsed document. Every other exception
  leaves the method; the manager is returned as the exception left it. The result is
  \<open>None\<close> when the document gives a record as described for \<open>from_dict\<close>, or a
  \<^verbatim>\<open>"pending_syncs"\<close> entry that is no list of strings, which the code stores unchecked.
\<close>

definition load_local ::
  "rat \<Rightarrow> pyvalue option \<Rightarrow> StateManager \<Rightarrow> ((error + int) \<times> StateManager) option" where
  "load_local now file m =
     (case file of
        None \<Rightarrow> Some (Inr 0, m)
      | Some doc \<Rightarrow>
          (case doc of
             PDict data \<Rightarrow>
               (case get_default data ''states'' (PDict []) of
                  PDict st \<Rightarrow>
                    (case load_states now st m of
                       None \<Rightarrow> None
                     | Some (Some e, m') \<Rightarrow> Some (Inl e, m')
                     | Some (None, m') \<Rightarrow>
                         (case as_str_list (get_default data ''pending_syncs'' (PList [])) of
                            None \<Rightarrow> None
                          | Some ps \<Rightarrow>
                              Some (Inr (int (length (local_cache m'))),
                                    m'\<lparr>pending_syncs := ps\<rparr>)))
                | _ \<Rightarrow> Some (Inl (AttributeError ''items''), m))
           | _ \<Rightarrow> Some (Inl (AttributeError ''get''), m)))"

section \<open>Reading results\<close>

text \<open>The record a call of \<^verbatim>\<open>resolve_conflict\<close> returns, \<open>None\<close> when it raises.\<close>

definition winner_of :: "(error + SyncState) \<times> SyncConflict \<times> StateManager \<Rightarrow> SyncState option" where
  "winner_of r = (case fst r of Inl e \<Rightarrow> None | Inr w \<Rightarrow> Some w)"

text \<open>The invariant of section 3 of the specification, for one record and for the cache:
  the \<^verbatim>\<open>hash\<close> field is the state hash of the \<^verbatim>\<open>value\<close> field.\<close>

definition record_hash_ok :: "(pyvalue \<Rightarrow> string) \<Rightarrow> SyncState \<Rightarrow> bool" where
  "record_hash_ok dg s = (hash s = hash_state dg (svalue s))"

definition cache_hashes_ok :: "(pyvalue \<Rightarrow> string) \<Rightarrow> StateManager \<Rightarrow> bool" where
  "cache_hashes_ok dg m = list_all (\<lambda>(k, s). record_hash_ok dg s) (local_cache m)"

text \<open>The \<^verbatim>\<open>"states"\<close> entries of a snapshot file, as \<^verbatim>\<open>load_local\<close> walks them.\<close>

definition snapshot_states :: "pyvalue option \<Rightarrow> (string \<times> pyvalue) list" where
  "snapshot_states file =
     (case file of
        Some (PDict data) \<Rightarrow>
          (case get_default data ''states'' (PDict []) of PDict st \<Rightarrow> st | _ \<Rightarrow> [])
      | _ \<Rightarrow> [])"

text \<open>
  The \<^verbatim>\<open>else\<close> branch of the loop of \<^verbatim>\<open>sync_from_primary\<close>, as a condition on a key in a
  manager state: a remote record is fetched, and there is no local record or the local
  hash equals the remote one. It is the branch that stores the remote record and counts.
\<close>

definition pull_installs :: "fetch_fn \<Rightarrow> StateManager \<Rightarrow> string \<Rightarrow> bool" where
  "pull_installs fetch m k =
     (case fetch k (primary_source m) of
        None \<Rightarrow> False
      | Some r \<Rightarrow>
          (case map_of (local_cache m) k of None \<Rightarrow> True | Some l \<Rightarrow> hash l = hash r))"

text \<open>
  The \<^verbatim>\<open>if\<close> branch of that loop, for a key in a manager state: the conflict it appends to
  the log when a remote record is fetched and a local record with another hash exists,
  and nothing otherwise.
\<close>

definition pull_conflict :: "fetch_fn \<Rightarrow> rat \<Rightarrow> StateManager \<Rightarrow> string \<Rightarrow> SyncConflict list" where
  "pull_conflict fetch now m k =
     (case fetch k (primary_source m) of
        None \<Rightarrow> []
      | Some r \<Rightarrow>
          (case map_of (local_cache m) k of
             None \<Rightarrow> []
           | Some l \<Rightarrow> if hash l \<noteq> hash r then [new_conflict k l r now] else []))"






section \<open>Example inputs\<close>

text \<open>A stand-in for the digest in the examples: the keys of the normalized top-level
  mapping, run together.\<close>

definition example_digest :: "pyvalue \<Rightarrow> string" where
  "example_digest j = (case j of PDict kvs \<Rightarrow> concat (map fst kvs) | _ \<Rightarrow> [])"

definition card_todo :: pydict where
  "card_todo = [(''status'', PStr ''todo'')]"

definition card_doing :: pydict where
  "card_doing = [(''status'', PStr ''doing'')]"


text \<open>A local record at version 2 and two remote records with another hash: an older one
  written at the same time, and a newer one.\<close>

definition example_local :: SyncState where
  "example_local =
     \<lparr>key = PStr ''k'', svalue = card_doing, hash = ''h-local'', source = LOCAL,
      timestamp = 10, version = 2, metadata = PDict []\<rparr>"

definition example_remote_old :: SyncState where
  "example_remote_old =
     \<lparr>key = PStr ''k'', svalue = card_todo, hash = ''h-remote'', source = CLOUDFLARE,
      timestamp = 10, version = 1, metadata = PDict []\<rparr>"

definition example_remote_new :: SyncState where
  "example_remote_new =
     \<lparr>key = PStr ''k'', svalue = card_todo, hash = ''h-remote'', source = CLOUDFLARE,
      timestamp = 20, version = 5, metadata = PDict []\<rparr>"

definition example_manager :: StateManager where
  "example_manager = new_manager\<lparr>local_cache := [(''k'', example_local)]\<rparr>"

text \<open>A backend that holds one record, under the key \<^verbatim>\<open>k\<close>.\<close>

definition example_fetch :: "SyncState \<Rightarrow> fetch_fn" where
  "example_fetch r k src = (if k = ''k'' then Some r else None)"

text \<open>A snapshot file whose one record carries a hash that is not the hash of its value.\<close>

definition tampered_snapshot :: pyvalue where
  "tampered_snapshot =
     PDict [(''version'', PInt 1),
            (''timestamp'', PFloat 3),
            (''states'', PDict [(''k'',
               PDict [(''key'', PStr ''k''),
                      (''value'', PDict card_todo),
                      (''hash'', PStr ''bogus''),
                      (''source'', PStr ''local'')])]),
            (''pending_syncs'', PList [])]"

section \<open>The shipped backend fetch\<close>

lemma detect_items_shipped: "detect_items fetch_from_source now p items = []"
  by (induction items) (auto simp: fetch_from_source_def)

lemma pull_keys_shipped: "pull_keys fetch_from_source now ks cnt m = (cnt, m)"
  by (induction ks arbitrary: cnt m) (auto simp: fetch_from_source_def)

text \<open>
  Claim C10. The fetch helper \<^verbatim>\<open>_fetch_from_source\<close>, as the class ships it, answers absent
  for every key and every source. So, in every manager state, \<^verbatim>\<open>detect_conflicts\<close> returns
  the empty list and leaves the manager (its conflict log included) as it was, and
  \<^verbatim>\<open>sync_from_primary\<close> returns 0 and leaves the manager (its cache included) as it was.
\<close>

theorem shipped_fetch_finds_nothing:
  "fetch_from_source k src = None
   \<and> detect_conflicts fetch_from_source now m = ([], m)
   \<and> sync_from_primary fetch_from_source now keys m = (0, m)"
  by (simp add: fetch_from_source_def detect_conflicts_def sync_from_primary_def
      detect_items_shipped pull_keys_shipped)

section \<open>Conflict resolution\<close>

text \<open>
  Claim C3 says that \<^verbatim>\<open>LAST_WRITE_WINS\<close> keeps the local record when the two timestamps are
  equal. The test in the code is \<^verbatim>\<open>local.timestamp > remote.timestamp\<close>, with the remote
  record in the \<^verbatim>\<open>else\<close> branch: on a tie the remote record wins. Here the local and the
  remote record carry the same timestamp and differ, and the remote one is returned.
\<close>

theorem last_write_wins_tie_counterexample:
  "timestamp (local_state (new_conflict ''k'' example_local example_remote_old 0))
     = timestamp (remote_state (new_conflict ''k'' example_local example_remote_old 0))
   \<and> winner_of (resolve_conflict example_digest 0
         (new_conflict ''k'' example_local example_remote_old 0)
         LAST_WRITE_WINS None example_manager) = Some example_remote_old
   \<and> example_remote_old \<noteq> example_local"
  by (simp add: resolve_conflict_def finish_resolve_def winner_of_def new_conflict_def
      example_local_def example_remote_old_def)

text \<open>
  Claim C3, amended. \<^verbatim>\<open>resolve_conflict\<close> with policy \<^verbatim>\<open>LAST_WRITE_WINS\<close> returns the local
  record when the local timestamp is strictly greater than the remote timestamp, the
  remote record when the remote timestamp is strictly greater, and the remote record when
  the two timestamps are equal.
\<close>

theorem last_write_wins_winner:
  "(timestamp (local_state c) > timestamp (remote_state c) \<longrightarrow>
      winner_of (resolve_conflict dg now c LAST_WRITE_WINS mv m) = Some (local_state c))
   \<and> (timestamp (remote_state c) > timestamp (local_state c) \<longrightarrow>
      winner_of (resolve_conflict dg now c LAST_WRITE_WINS mv m) = Some (remote_state c))
   \<and> (timestamp (local_state c) = timestamp (remote_state c) \<longrightarrow>
      winner_of (resolve_conflict dg now c LAST_WRITE_WINS mv m) = Some (remote_state c))"
  by (simp add: resolve_conflict_def finish_resolve_def winner_of_def)

text \<open>The three cases at concrete conflicts: a later local record, a later remote record,
  and a tie.\<close>

theorem last_write_wins_winner_witness:
  "winner_of (resolve_conflict example_digest 0
      (new_conflict ''k'' example_remote_new example_local 0) LAST_WRITE_WINS None example_manager)
     = Some example_remote_new
   \<and> winner_of (resolve_conflict example_digest 0
      (new_conflict ''k'' example_local example_remote_new 0) LAST_WRITE_WINS None example_manager)
     = Some example_remote_new
   \<and> winner_of (resolve_conflict example_digest 0
      (new_conflict ''k'' example_local example_remote_old 0) LAST_WRITE_WINS None example_manager)
     = Some example_remote_old"
  using last_write_wins_winner [of "new_conflict ''k'' example_remote_new example_local 0"
          example_digest 0 None example_manager]
        last_write_wins_winner [of "new_conflict ''k'' example_local example_remote_new 0"
          example_digest 0 None example_manager]
        last_write_wins_winner [of "new_conflict ''k'' example_local example_remote_old 0"
          example_digest 0 None example_manager]
  by (simp add: new_conflict_def example_local_def example_remote_old_def example_remote_new_def)

section \<open>Failures of a resolution\<close>

text \<open>The call on an entry of the conflict log, in terms of the call on the conflict it
  holds: the same result and manager, with the entry of the log replaced by the conflict
  as the call leaves it.\<close>

lemma resolve_logged_eq:
  "i < length (conflicts m) \<Longrightarrow>
   resolve_logged dg now i res mv m =
     Some (fst (resolve_conflict dg now (conflicts m ! i) res mv m),
           fst (snd (resolve_conflict dg now (conflicts m ! i) res mv m)),
           (snd (snd (resolve_conflict dg now (conflicts m ! i) res mv m)))
             \<lparr>conflicts := (conflicts m)
                [i := fst (snd (resolve_conflict dg now (conflicts m ! i) res mv m))]\<rparr>)"
  by (cases res; cases mv)
     (auto simp: resolve_logged_def resolve_conflict_def finish_resolve_def put_def Let_def
        split: prod.splits)

text \<open>A successful resolution of a log entry: the entry of the log is the marked conflict.\<close>

lemma resolve_logged_marks:
  "i < length (conflicts m) \<Longrightarrow>
   resolve_logged dg now i SOURCE_PRIORITY mv m = Some (r, c', m') \<Longrightarrow>
   conflicts m' ! i = c' \<and> resolved c' \<and> resolution c' = Some ''source_priority''
   \<and> r = Inr (remote_state (conflicts m ! i))"
  by (auto simp: resolve_logged_def resolve_conflict_def finish_resolve_def)

text \<open>
  Claim C8 says that the missing-value failure occurs exactly when the policy is \<^verbatim>\<open>MERGE\<close>
  and no merged value is supplied. The guard in the code is \<^verbatim>\<open>if not merged_value\<close>, which
  also holds for a supplied, empty mapping: the call below supplies \<^verbatim>\<open>{}\<close> and fails with
  the same error.
\<close>

theorem merge_empty_value_counterexample:
  "resolve_conflict example_digest 0 (new_conflict ''k'' example_local example_remote_new 0)
      MERGE (Some []) example_manager
   = (Inl (ValueError ''merged_value required for MERGE resolution''),
      new_conflict ''k'' example_local example_remote_new 0, example_manager)"
  by (simp add: resolve_conflict_def)

text \<open>
  Claim C8, amended. \<^verbatim>\<open>resolve_conflict\<close> fails with the missing-value error (the spec's
  \<^verbatim>\<open>InvalidArgument\<close>) exactly when the policy is \<^verbatim>\<open>MERGE\<close> and the merged value is absent or
  the empty mapping; it always fails with the cannot-auto-resolve error (the spec's
  \<^verbatim>\<open>UnsupportedResolution\<close>) when the policy is \<^verbatim>\<open>MANUAL\<close>; and in each of these failure
  cases the cache, the pending-sync queue and the conflict record (resolved flag and
  resolution field) are left as they were, also when the conflict is an entry of the
  manager's conflict log.
\<close>

theorem resolve_conflict_failures:
  "(fst (resolve_conflict dg now c res mv m)
      = Inl (ValueError ''merged_value required for MERGE resolution'')
    \<longleftrightarrow> res = MERGE \<and> (mv = None \<or> mv = Some []))
   \<and> fst (resolve_conflict dg now c MANUAL mv m)
      = Inl (ValueError ''Cannot auto-resolve with ConflictResolution.MANUAL'')
   \<and> (res = MANUAL \<or> res = MERGE \<and> (mv = None \<or> mv = Some [])
      \<longrightarrow> snd (resolve_conflict dg now c res mv m) = (c, m))
   \<and> (i < length (conflicts m)
        \<and> (res = MANUAL \<or> res = MERGE \<and> (mv = None \<or> mv = Some []))
      \<longrightarrow> resolve_logged dg now i res mv m
            = Some (fst (resolve_conflict dg now (conflicts m ! i) res mv m),
                    conflicts m ! i, m))"
proof -
  have 1: "fst (resolve_conflict dg now c res mv m)
      = Inl (ValueError ''merged_value required for MERGE resolution'')
    \<longleftrightarrow> res = MERGE \<and> (mv = None \<or> mv = Some [])"
    by (cases res; cases mv)
       (auto simp: resolve_conflict_def finish_resolve_def split: prod.splits)
  have 2: "fst (resolve_conflict dg now c MANUAL mv m)
      = Inl (ValueError ''Cannot auto-resolve with ConflictResolution.MANUAL'')"
    by (simp add: resolve_conflict_def)
  have 3: "snd (resolve_conflict dg now c res mv m) = (c, m)"
    if "res = MANUAL \<or> res = MERGE \<and> (mv = None \<or> mv = Some [])" for c
    using that by (auto simp: resolve_conflict_def)
  have 4: "resolve_logged dg now i res mv m
            = Some (fst (resolve_conflict dg now (conflicts m ! i) res mv m),
                    conflicts m ! i, m)"
    if "i < length (conflicts m)"
      "res = MANUAL \<or> res = MERGE \<and> (mv = None \<or> mv = Some [])"
    using that(1) 3 [OF that(2), of "conflicts m ! i"]
    by (simp add: resolve_logged_eq)
  from 1 2 3 4 show ?thesis by blast
qed

text \<open>A \<^verbatim>\<open>MANUAL\<close> resolution and a \<^verbatim>\<open>MERGE\<close> resolution with no merged value, on a manager
  that caches the conflict's key, and a \<^verbatim>\<open>MANUAL\<close> resolution of a log entry: each fails and
  changes nothing.\<close>

theorem resolve_conflict_failures_witness:
  "resolve_conflict example_digest 0 (new_conflict ''k'' example_local example_remote_new 0)
      MANUAL (Some card_todo) example_manager
   = (Inl (ValueError ''Cannot auto-resolve with ConflictResolution.MANUAL''),
      new_conflict ''k'' example_local example_remote_new 0, example_manager)
   \<and> resolve_conflict example_digest 0 (new_conflict ''k'' example_local example_remote_new 0)
      MERGE None example_manager
   = (Inl (ValueError ''merged_value required for MERGE resolution''),
      new_conflict ''k'' example_local example_remote_new 0, example_manager)
   \<and> resolve_logged example_digest 0 0 MANUAL None
        (example_manager\<lparr>conflicts := [new_conflict ''k'' example_local example_remote_new 0]\<rparr>)
   = Some (Inl (ValueError ''Cannot auto-resolve with ConflictResolution.MANUAL''),
      new_conflict ''k'' example_local example_remote_new 0,
      example_manager\<lparr>conflicts := [new_conflict ''k'' example_local example_remote_new 0]\<rparr>)"
  using resolve_conflict_failures [where dg = example_digest and now = 0
          and c = "new_conflict ''k'' example_local example_remote_new 0" and res = MANUAL
          and mv = "Some card_todo" and m = example_manager and i = 0]
        resolve_conflict_failures [where dg = example_digest and now = 0
          and c = "new_conflict ''k'' example_local example_remote_new 0" and res = MERGE
          and mv = None and m = example_manager and i = 0]
        resolve_conflict_failures [where dg = example_digest and now = 0
          and c = "new_conflict ''k'' example_local example_remote_new 0" and res = MANUAL
          and mv = None and i = 0
          and m = "example_manager\<lparr>conflicts :=
                     [new_conflict ''k'' example_local example_remote_new 0]\<rparr>"]
  by (simp add: prod_eq_iff)

section \<open>The pending-sync queue\<close>

text \<open>
  Claim C5 says that the pending-sync queue never holds a key twice. \<^verbatim>\<open>put\<close> appends the
  key without looking at the queue: two puts of the same key on a new manager leave it
  queued twice.
\<close>

theorem put_twice_queues_twice_counterexample:
  "pending_syncs (snd (put example_digest 2 ''k'' card_doing None
      (snd (put example_digest 1 ''k'' card_todo None new_manager)))) = [''k'', ''k'']
   \<and> \<not> distinct (pending_syncs (snd (put example_digest 2 ''k'' card_doing None
      (snd (put example_digest 1 ''k'' card_todo None new_manager)))))"
  by (simp add: put_def new_manager_def init_manager_def Let_def)

text \<open>
  Claim C5, amended. Every \<^verbatim>\<open>put\<close> appends its key at the end of the pending-sync queue,
  whether or not the key is already queued; so putting the same key twice before a sync
  adds two queue entries for it.
\<close>

theorem put_appends_to_queue:
  "pending_syncs (snd (put dg now k v src m)) = pending_syncs m @ [k]
   \<and> pending_syncs (snd (put dg now' k v' src' (snd (put dg now k v src m))))
       = pending_syncs m @ [k, k]"
  by (simp add: put_def Let_def)

section \<open>Conflict detection\<close>

text \<open>Which keys of an association list satisfy a property, one entry at a time.\<close>

lemma ex_map_of_Cons:
  "map_of items k0 = None \<Longrightarrow>
   (\<exists>k l. map_of ((k0, l0) # items) k = Some l \<and> Q k l) \<longleftrightarrow>
     Q k0 l0 \<or> (\<exists>k l. map_of items k = Some l \<and> Q k l)"
proof
  assume "\<exists>k l. map_of ((k0, l0) # items) k = Some l \<and> Q k l"
  then obtain k l where "map_of ((k0, l0) # items) k = Some l" "Q k l" by blast
  then show "Q k0 l0 \<or> (\<exists>k l. map_of items k = Some l \<and> Q k l)"
    by (cases "k = k0") auto
next
  assume fresh: "map_of items k0 = None"
  assume "Q k0 l0 \<or> (\<exists>k l. map_of items k = Some l \<and> Q k l)"
  then show "\<exists>k l. map_of ((k0, l0) # items) k = Some l \<and> Q k l"
  proof
    assume "Q k0 l0"
    then have "map_of ((k0, l0) # items) k0 = Some l0 \<and> Q k0 l0" by simp
    then show ?thesis by blast
  next
    assume "\<exists>k l. map_of items k = Some l \<and> Q k l"
    then obtain k l where kl: "map_of items k = Some l" "Q k l" by blast
    with fresh have "k \<noteq> k0" by auto
    with kl have "map_of ((k0, l0) # items) k = Some l \<and> Q k l" by simp
    then show ?thesis by blast
  qed
qed

lemma detect_items_mem:
  "distinct (map fst items) \<Longrightarrow>
   c \<in> set (detect_items fetch now p items) \<longleftrightarrow>
     (\<exists>k l. map_of items k = Some l \<and>
        (\<exists>r. fetch k p = Some r \<and> hash l \<noteq> hash r
           \<and> version l < version r \<and> c = new_conflict k l r now))"
proof (induction items)
  case Nil
  then show ?case by simp
next
  case (Cons a items)
  obtain k0 l0 where a: "a = (k0, l0)" by (cases a)
  from Cons.prems a have fresh: "map_of items k0 = None" and d: "distinct (map fst items)"
    by (auto simp: map_of_eq_None_iff)
  show ?case
    unfolding a ex_map_of_Cons [OF fresh]
    using Cons.IH [OF d]
    by (cases "fetch k0 p") auto
qed

lemma new_conflict_key [simp]: "ckey (new_conflict k l r now) = k"
  by (simp add: new_conflict_def)

text \<open>
  Claim C1. For every key in the local cache, \<^verbatim>\<open>detect_conflicts\<close> produces a conflict for
  that key if and only if a remote record is fetched for it, the local and the remote hash
  differ, and the local version is strictly less than the remote version. So no conflict
  is produced when the local version is at least the remote one, nor when the remote
  record is absent. The conflicts returned are appended to the conflict log, and nothing
  else of the manager changes. The cache is a dictionary: its keys are distinct.
\<close>

theorem detect_conflicts_classifies:
  assumes "distinct (map fst (local_cache m))"
    and "map_of (local_cache m) k = Some l"
  shows "((\<exists>c \<in> set (fst (detect_conflicts fetch now m)). ckey c = k) \<longleftrightarrow>
           (\<exists>r. fetch k (primary_source m) = Some r \<and> hash l \<noteq> hash r
              \<and> version l < version r))
         \<and> snd (detect_conflicts fetch now m)
             = m\<lparr>conflicts := conflicts m @ fst (detect_conflicts fetch now m)\<rparr>"
proof -
  let ?found = "detect_items fetch now (primary_source m) (local_cache m)"
  note mem = detect_items_mem [OF assms(1), of _ fetch now "primary_source m"]
  have "(\<exists>c \<in> set ?found. ckey c = k) \<longleftrightarrow>
          (\<exists>r. fetch k (primary_source m) = Some r \<and> hash l \<noteq> hash r \<and> version l < version r)"
  proof
    assume "\<exists>c \<in> set ?found. ckey c = k"
    then obtain c where c: "c \<in> set ?found" and ck: "ckey c = k" by blast
    from c obtain k' l' r where *: "map_of (local_cache m) k' = Some l'"
      "fetch k' (primary_source m) = Some r" "hash l' \<noteq> hash r" "version l' < version r"
      "c = new_conflict k' l' r now"
      unfolding mem by blast
    from * ck have "k' = k" by simp
    with * assms(2) have "l' = l" by simp
    with * \<open>k' = k\<close> show "\<exists>r. fetch k (primary_source m) = Some r \<and> hash l \<noteq> hash r
        \<and> version l < version r" by blast
  next
    assume "\<exists>r. fetch k (primary_source m) = Some r \<and> hash l \<noteq> hash r \<and> version l < version r"
    then obtain r where "fetch k (primary_source m) = Some r" "hash l \<noteq> hash r"
      "version l < version r" by blast
    with assms(2) have "new_conflict k l r now \<in> set ?found"
      unfolding mem by blast
    then show "\<exists>c \<in> set ?found. ckey c = k"
      by (rule bexI [rotated]) simp
  qed
  then show ?thesis
    by (simp add: detect_conflicts_def Let_def)
qed

text \<open>A cached record at version 2 against a remote record with another hash: at remote
  version 5 the key is flagged, at remote version 1 it is not.\<close>

theorem detect_conflicts_classifies_witness:
  "fst (detect_conflicts (example_fetch example_remote_new) 0 example_manager)
     = [new_conflict ''k'' example_local example_remote_new 0]
   \<and> fst (detect_conflicts (example_fetch example_remote_old) 0 example_manager) = []"
  using detect_conflicts_classifies [of example_manager "''k''" example_local
          "example_fetch example_remote_new" 0]
        detect_conflicts_classifies [of example_manager "''k''" example_local
          "example_fetch example_remote_old" 0]
  by (simp add: detect_conflicts_def Let_def example_manager_def example_fetch_def
      new_manager_def init_manager_def example_local_def example_remote_new_def
      example_remote_old_def)

section \<open>Pushing the pending queue\<close>

text \<open>
  What \<^verbatim>\<open>sync_all\<close> leaves in the queue: exactly the entries that have no cached record,
  in their order. In particular \<^verbatim>\<open>list.remove\<close> never raises inside \<^verbatim>\<open>sync_all\<close>.
\<close>

lemma sync_keys_pending:
  "pending_syncs m = ys @ ks \<Longrightarrow> \<forall>y \<in> set ys. map_of (local_cache m) y = None \<Longrightarrow>
   \<exists>res'. sync_keys push ks res m =
     Inr (res', m\<lparr>pending_syncs := ys @ filter (\<lambda>k. map_of (local_cache m) k = None) ks\<rparr>)"
proof (induction ks arbitrary: ys res m)
  case Nil
  then show ?case by simp
next
  case (Cons k ks)
  show ?case
  proof (cases "map_of (local_cache m) k")
    case None
    from Cons.prems None have "pending_syncs m = (ys @ [k]) @ ks"
      and "\<forall>y \<in> set (ys @ [k]). map_of (local_cache m) y = None" by auto
    from Cons.IH [OF this] None show ?thesis by simp
  next
    case (Some state)
    with Cons.prems have "k \<notin> set ys" by auto
    then have rm: "remove1 k (ys @ k # ks) = ys @ ks"
      by (simp add: remove1_append)
    let ?m = "m\<lparr>pending_syncs := ys @ ks\<rparr>"
    have "pending_syncs ?m = ys @ ks" and "\<forall>y \<in> set ys. map_of (local_cache ?m) y = None"
      using Cons.prems by auto
    from Cons.IH [OF this] Some Cons.prems rm show ?thesis
      by (simp add: list_remove_def)
  qed
qed

lemma sync_all_pending:
  "\<exists>res. sync_all push m =
     Inr (res, m\<lparr>pending_syncs := filter (\<lambda>k. map_of (local_cache m) k = None) (pending_syncs m)\<rparr>)"
  unfolding sync_all_def
  using sync_keys_pending [of m "[]" "pending_syncs m" push] by simp

text \<open>
  Claim C4 says that every entry queued when \<^verbatim>\<open>sync_all\<close> is called, tombstones included,
  is pushed to every secondary backend and removed from the queue. In the code an entry
  with no cached record meets \<^verbatim>\<open>continue\<close> before the push and before the removal. After
  \<^verbatim>\<open>put("k", ...)\<close> and \<^verbatim>\<open>delete("k")\<close> on a new manager the queue holds the key and its
  tombstone; \<^verbatim>\<open>sync_all\<close> pushes nothing and leaves both entries queued, although
  \<^verbatim>\<open>delete\<close> queued the tombstone as a deletion to be synchronized.
\<close>

theorem sync_all_keeps_tombstone:
  "sync_all push_to_source
     (snd (delete ''k'' (snd (put example_digest 1 ''k'' card_todo None new_manager))))
   = Inr (\<lparr>synced = [], failed = [], result_conflicts = []\<rparr>,
          new_manager\<lparr>pending_syncs := [''k'', ''DELETE:k'']\<rparr>)"
  by (simp add: sync_all_def put_def delete_def new_manager_def init_manager_def Let_def)

section \<open>Resolution by merge\<close>

text \<open>
  Claim C6 says that the record a \<^verbatim>\<open>MERGE\<close> resolution produces has a version strictly
  greater than the versions of both records of the conflict. The version comes from \<^verbatim>\<open>put\<close>:
  one more than the version cached under the conflict's key. Here the cache holds version
  2 and the remote record of the conflict has version 5; the merged record has version 3.
\<close>

theorem merge_version_counterexample:
  "map_option version (winner_of (resolve_conflict example_digest 30
      (new_conflict ''k'' example_local example_remote_new 0) MERGE (Some card_doing)
      example_manager)) = Some 3
   \<and> version (remote_state (new_conflict ''k'' example_local example_remote_new 0)) = 5"
  by (simp add: resolve_conflict_def finish_resolve_def winner_of_def put_def Let_def
      new_conflict_def example_manager_def example_local_def example_remote_new_def
      card_doing_def)

text \<open>
  Claim C6, amended. Resolving a conflict with policy \<^verbatim>\<open>MERGE\<close> and a supplied, non-empty
  merged value performs a cache \<^verbatim>\<open>put\<close> of the merged value under the conflict's key with
  source equal to the local process; the resulting record is returned and cached, its hash
  is the state hash of the merged value, and its version is one more than the version of
  the record cached under that key (1 if there is none). So its version is strictly
  greater than the conflict's local version whenever the cache still holds the conflict's
  local record; it need not exceed the remote version.
\<close>

theorem merge_resolution_puts:
  "mv \<noteq> [] \<longrightarrow>
     (let w = fst (put dg now (ckey c) mv None m);
          m' = snd (snd (resolve_conflict dg now c MERGE (Some mv) m))
      in winner_of (resolve_conflict dg now c MERGE (Some mv) m) = Some w
         \<and> svalue w = mv \<and> source w = LOCAL \<and> hash w = hash_state dg mv
         \<and> version w = (case map_of (local_cache m) (ckey c) of
                           Some e \<Rightarrow> version e + 1 | None \<Rightarrow> 1)
         \<and> map_of (local_cache m') (ckey c) = Some w
         \<and> (map_of (local_cache m) (ckey c) = Some (local_state c)
              \<longrightarrow> version (local_state c) < version w))"
  by (auto simp: resolve_conflict_def finish_resolve_def winner_of_def put_def Let_def
      AList.update_conv' split: option.splits)

theorem merge_resolution_puts_witness:
  "winner_of (resolve_conflict example_digest 30
      (new_conflict ''k'' example_local example_remote_new 0) MERGE (Some card_doing)
      example_manager)
   = Some \<lparr>key = PStr ''k'', svalue = card_doing, hash = ''status'', source = LOCAL,
           timestamp = 30, version = 3,
           metadata = PDict [(''updated_by'', PStr ''state_manager'')]\<rparr>"
  using merge_resolution_puts [of card_doing example_digest 30
          "new_conflict ''k'' example_local example_remote_new 0" example_manager]
  by (simp add: put_def Let_def new_conflict_def example_manager_def example_local_def
      card_doing_def hash_state_def example_digest_def volatile_fields_def)

section \<open>Pulling from the primary source\<close>

text \<open>
  Which branch the loop of \<^verbatim>\<open>sync_from_primary\<close> takes for a key does not change while
  the loop runs: storing the fetched record under a key leaves that key with the hash of
  the fetched record, and logging a conflict leaves the cache alone. So the count, the
  log and the cache the loop leaves are read off the state it starts in, also when a key
  is listed more than once.
\<close>

lemma pull_installs_log [simp]:
  "pull_installs fetch (m\<lparr>conflicts := cs\<rparr>) = pull_installs fetch m"
  by (rule ext) (simp add: pull_installs_def split: option.splits)

lemma pull_conflict_log [simp]:
  "pull_conflict fetch now (m\<lparr>conflicts := cs\<rparr>) = pull_conflict fetch now m"
  by (rule ext) (simp add: pull_conflict_def split: option.splits)







lemma pull_installs_fetched:
  "pull_installs fetch m k \<Longrightarrow> \<exists>r. fetch k (primary_source m) = Some r"
  by (auto simp: pull_installs_def split: option.splits)








section \<open>Persistence: the round trip\<close>














section \<open>The hash invariant\<close>















lemma load_local_states:
  "load_local now snap m = Some (res, m') \<Longrightarrow>
   local_cache m' = local_cache m
   \<or> (\<exists>eo m''. load_states now (snapshot_states snap) m = Some (eo, m'')
         \<and> local_cache m' = local_cache m'' \<and> (eo = None \<longleftrightarrow> (\<exists>n. res = Inr n)))"
  by (auto simp: load_local_def snapshot_states_def
      split: option.splits pyvalue.splits sum.splits prod.splits)






text \<open>Whatever the digest is, the record of the tampered snapshot is cached with the hash
  of the file; the invariant fails unless the digest of its value happens to be that
  string (a SHA-256 hex digest has 64 characters).\<close>

lemma tampered_snapshot_loads:
  "load_local now (Some tampered_snapshot) new_manager
     = Some (Inr 1, new_manager\<lparr>local_cache :=
         [(''k'', \<lparr>key = PStr ''k'', svalue = card_todo, hash = ''bogus'', source = LOCAL,
                   timestamp = now, version = 1, metadata = PDict []\<rparr>)]\<rparr>)"
  by (simp add: load_local_def tampered_snapshot_def get_default_def from_dict_def
      required_fields_def bind_result_def subscript_def sync_source_def source_of_value_def
      as_str_def as_dict_def as_int_def as_float_def as_str_list_def new_manager_def
      init_manager_def)

lemma tampered_snapshot_any_digest:
  "hash_state dg card_todo \<noteq> ''bogus'' \<Longrightarrow>
   map_option (\<lambda>(r, m'). cache_hashes_ok dg m')
     (load_local now (Some tampered_snapshot) new_manager) = Some False"
  unfolding tampered_snapshot_loads
  by (simp add: cache_hashes_ok_def record_hash_ok_def)




section \<open>The cache is a dictionary\<close>

text \<open>
  The theorems on \<^verbatim>\<open>detect_conflicts\<close> and on the snapshot round trip read the cache as a
  Python dictionary, with distinct keys. A new manager has such a cache, and every
  operation of the manager keeps it so.
\<close>

lemma init_keys_distinct: "distinct (map fst (local_cache (init_manager ps cr)))"
  by (simp add: init_manager_def)

lemma put_keys_distinct:
  "distinct (map fst (local_cache m)) \<Longrightarrow>
   distinct (map fst (local_cache (snd (put dg now k v src m))))"
  by (simp add: put_def Let_def AList.distinct_update)

lemma delete_keys_distinct:
  "distinct (map fst (local_cache m)) \<Longrightarrow>
   distinct (map fst (local_cache (snd (delete k m))))"
  by (simp add: delete_def AList.distinct_delete)

lemma resolve_keys_distinct:
  "distinct (map fst (local_cache m)) \<Longrightarrow>
   distinct (map fst (local_cache (snd (snd (resolve_conflict dg now c res mv m)))))"
  by (cases res; cases mv)
     (simp_all add: resolve_conflict_def finish_resolve_def put_def Let_def
        AList.distinct_update)

lemma resolve_logged_cache:
  "resolve_logged dg now i res mv m = Some (r, c', m') \<Longrightarrow>
   local_cache m' = local_cache (snd (snd (resolve_conflict dg now (conflicts m ! i) res mv m)))
   \<and> pending_syncs m'
       = pending_syncs (snd (snd (resolve_conflict dg now (conflicts m ! i) res mv m)))
   \<and> r = fst (resolve_conflict dg now (conflicts m ! i) res mv m)"
  by (auto simp: resolve_logged_def split: if_splits prod.splits)

lemma pull_keys_distinct:
  "distinct (map fst (local_cache m)) \<Longrightarrow>
   distinct (map fst (local_cache (snd (pull_keys fetch now ks cnt m))))"
  by (induction ks arbitrary: cnt m) (auto simp: AList.distinct_update split: option.splits)

lemma sync_from_primary_keys_distinct:
  "distinct (map fst (local_cache m)) \<Longrightarrow>
   distinct (map fst (local_cache (snd (sync_from_primary fetch now keys m))))"
  by (simp add: sync_from_primary_def pull_keys_distinct)

lemma load_states_keys_distinct:
  "distinct (map fst (local_cache m)) \<Longrightarrow> load_states now items m = Some (eo, m') \<Longrightarrow>
   distinct (map fst (local_cache m'))"
proof (induction items arbitrary: m)
  case Nil
  then show ?case by simp
next
  case (Cons x items)
  obtain k d where x: "x = (k, d)" by (cases x)
  show ?case
  proof (cases "from_dict now d")
    case None
    with Cons.prems(2) x show ?thesis by simp
  next
    case (Some res)
    show ?thesis
    proof (cases res)
      case (Inl e)
      with Some Cons.prems x show ?thesis by simp
    next
      case (Inr s)
      let ?m1 = "m\<lparr>local_cache := AList.update k s (local_cache m)\<rparr>"
      have "distinct (map fst (local_cache ?m1))"
        using Cons.prems(1) by (simp add: AList.distinct_update)
      moreover from Cons.prems(2) x Some Inr
      have "load_states now items ?m1 = Some (eo, m')" by simp
      ultimately show ?thesis by (rule Cons.IH)
    qed
  qed
qed

lemma load_local_keys_distinct:
  assumes "distinct (map fst (local_cache m))" and "load_local now snap m = Some (out, m')"
  shows "distinct (map fst (local_cache m'))"
proof -
  from load_local_states [OF assms(2)]
  consider "local_cache m' = local_cache m"
    | eo m'' where "load_states now (snapshot_states snap) m = Some (eo, m'')"
        "local_cache m' = local_cache m''"
    by blast
  then show ?thesis
  proof cases
    case 1
    with assms(1) show ?thesis by simp
  next
    case 2
    from load_states_keys_distinct [OF assms(1) 2(1)] 2(2) show ?thesis by simp
  qed
qed

lemma sync_all_cache:
  "sync_all push m = Inr (res, m') \<Longrightarrow> local_cache m' = local_cache m"
  using sync_all_pending [of push m] by auto

end
